theory Spec2Isabelle
  imports Main "HOL-Library.Word"
begin

section \<open>Data model of package bplus\<close>

text \<open>
  \<^verbatim>\<open>Key\<close> and \<^verbatim>\<open>Value\<close> are byte slices. The source
  tests single keys and values against \<^verbatim>\<open>nil\<close>, so a key or value is an
  optional byte list: \<open>None\<close> is the nil slice, \<open>Some bs\<close> a non-nil slice
  with contents \<open>bs\<close>. The slices of keys, values and child pointers held in a
  node are never compared with nil, only ranged over, and are plain lists (the nil slice
  and the empty slice are both \<open>[]\<close>).
\<close>

type_synonym byte = "8 word"
type_synonym Key = "byte list option"
type_synonym Value = "byte list option"

text \<open>The three constants of \<^verbatim>\<open>fillState\<close>.\<close>

datatype fillState = nodeEmpty | nodePartiallyFull | nodeFull

text \<open>
  A value of the interface \<^verbatim>\<open>node\<close> is a pointer to an
  \<^verbatim>\<open>internalNode\<close> or to a \<^verbatim>\<open>leafNode\<close>; a nil interface
  value is \<open>None\<close> of \<open>node option\<close>. The fields are those of the two structs,
  in the order of the source. Go's \<^verbatim>\<open>int\<close> is modelled by \<open>int\<close>: the
  functions below do no arithmetic on it.
\<close>

datatype node =
    internalNode (i_order: int) (i_keys: "Key list") (i_pointers: "node option list")
  | leafNode (l_order: int) (l_keys: "Key list") (l_pointers: "Value list") (l_next: "node option")

text \<open>
  Go's \<^verbatim>\<open>error\<close> interface: a returned error is \<open>error option\<close>, with
  \<open>None\<close> for nil. A panic is a separate channel, the left summand of a result.
\<close>

datatype error = Error string

datatype panic = Panic string

text \<open>
  \<^verbatim>\<open>BPlusTree\<close>. The field \<open>root\<close> holds the node the tree owns; the
  methods reach it through \<^verbatim>\<open>t.root\<close> without a nil test.
\<close>

record BPlusTree =
  order :: int
  root :: node

section \<open>Leaf nodes\<close>

text \<open>
  \<^verbatim>\<open>newLeafNode\<close>: \<^verbatim>\<open>make([]Key, order)\<close> is a slice of
  \<open>order\<close> nil keys, and likewise for the values; \<^verbatim>\<open>next\<close> is left nil.
  Allocation is taken to succeed.
\<close>

definition newLeafNode :: "int \<Rightarrow> node" where
  "newLeafNode ord = leafNode ord (replicate (nat ord) None) (replicate (nat ord) None) None"

text \<open>
  The loop of \<^verbatim>\<open>getFillState\<close>, shared in shape by both node kinds:
  \<open>i\<close> is the index of the head of the remaining keys.
\<close>

fun fill_loop :: "nat \<Rightarrow> Key list \<Rightarrow> fillState" where
  "fill_loop i [] = nodeFull"
| "fill_loop i (k # ks) =
     (if k \<noteq> None then fill_loop (Suc i) ks
      else if i = 0 then nodeEmpty
      else nodePartiallyFull)"

text \<open>
  The loops of \<^verbatim>\<open>leafNode.GetKeys\<close> and \<^verbatim>\<open>leafNode.GetValues\<close>:
  they append to the result until the first nil entry, where they break.
\<close>

fun leaf_GetKeys_loop :: "Key list \<Rightarrow> Key list \<Rightarrow> Key list" where
  "leaf_GetKeys_loop [] keys = keys"
| "leaf_GetKeys_loop (k # ks) keys =
     (if k = None then keys else leaf_GetKeys_loop ks (keys @ [k]))"

fun leaf_GetValues_loop :: "Value list \<Rightarrow> Value list \<Rightarrow> Value list" where
  "leaf_GetValues_loop [] vals = vals"
| "leaf_GetValues_loop (v # vs) vals =
     (if v = None then vals else leaf_GetValues_loop vs (vals @ [v]))"

section \<open>The methods of a node\<close>

text \<open>
  \<^verbatim>\<open>getFillState\<close>, by the dynamic type of the node.
\<close>

fun getFillState :: "node \<Rightarrow> fillState" where
  "getFillState (internalNode ord ks ps) = fill_loop 0 ks"
| "getFillState (leafNode ord ks vs nx) = fill_loop 0 ks"

text \<open>
  \<^verbatim>\<open>GetKeys\<close>. For an internal node the loop runs over the child pointers,
  breaks at the first nil pointer, returns \<^verbatim>\<open>nil, err\<close> when a child
  reports an error and appends the child's keys otherwise.
\<close>

function GetKeys_node :: "node \<Rightarrow> Key list \<times> error option"
  and internal_GetKeys_loop :: "node option list \<Rightarrow> Key list \<Rightarrow> Key list \<times> error option"
where
  "GetKeys_node (internalNode ord ks ps) = internal_GetKeys_loop ps []"
| "GetKeys_node (leafNode ord ks vs nx) = (leaf_GetKeys_loop ks [], None)"
| "internal_GetKeys_loop [] keys = (keys, None)"
| "internal_GetKeys_loop (None # ps) keys = (keys, None)"
| "internal_GetKeys_loop (Some p # ps) keys =
     (case GetKeys_node p of
        (k, Some err) \<Rightarrow> ([], Some err)
      | (k, None) \<Rightarrow> internal_GetKeys_loop ps (keys @ k))"
  by pat_completeness auto
termination
  by (relation "measure (\<lambda>x. case x of
         Inl n \<Rightarrow> size n
       | Inr (ps, keys) \<Rightarrow> size_list (size_option size) ps)") auto

function GetValues_node :: "node \<Rightarrow> Value list \<times> error option"
  and internal_GetValues_loop :: "node option list \<Rightarrow> Value list \<Rightarrow> Value list \<times> error option"
where
  "GetValues_node (internalNode ord ks ps) = internal_GetValues_loop ps []"
| "GetValues_node (leafNode ord ks vs nx) = (leaf_GetValues_loop vs [], None)"
| "internal_GetValues_loop [] vals = (vals, None)"
| "internal_GetValues_loop (None # ps) vals = (vals, None)"
| "internal_GetValues_loop (Some p # ps) vals =
     (case GetValues_node p of
        (v, Some err) \<Rightarrow> ([], Some err)
      | (v, None) \<Rightarrow> internal_GetValues_loop ps (vals @ v))"
  by pat_completeness auto
termination
  by (relation "measure (\<lambda>x. case x of
         Inl n \<Rightarrow> size n
       | Inr (ps, vals) \<Rightarrow> size_list (size_option size) ps)") auto

text \<open>
  \<^verbatim>\<open>Search\<close> and \<^verbatim>\<open>SearchRange\<close>: both node kinds return
  \<^verbatim>\<open>nil, nil\<close>.
\<close>

fun Search_node :: "node \<Rightarrow> Key \<Rightarrow> Value \<times> error option" where
  "Search_node (internalNode ord ks ps) k = (None, None)"
| "Search_node (leafNode ord ks vs nx) k = (None, None)"

fun SearchRange_node :: "node \<Rightarrow> Key \<Rightarrow> Key \<Rightarrow> Value list \<times> error option" where
  "SearchRange_node (internalNode ord ks ps) k1 k2 = ([], None)"
| "SearchRange_node (leafNode ord ks vs nx) k1 k2 = ([], None)"

text \<open>
  \<^verbatim>\<open>Insert\<close>, \<^verbatim>\<open>Update\<close> and \<^verbatim>\<open>Delete\<close> have a
  pointer receiver and may write to the node. The model passes the node in and returns
  the node as the method leaves it, with the returned error. The bodies are
  \<^verbatim>\<open>return nil\<close>: no field is assigned.
\<close>

fun Insert_node :: "node \<Rightarrow> Key \<Rightarrow> Value \<Rightarrow> node \<times> error option" where
  "Insert_node (internalNode ord ks ps) k v = (internalNode ord ks ps, None)"
| "Insert_node (leafNode ord ks vs nx) k v = (leafNode ord ks vs nx, None)"

fun Update_node :: "node \<Rightarrow> Key \<Rightarrow> Value \<Rightarrow> node \<times> error option" where
  "Update_node (internalNode ord ks ps) k v = (internalNode ord ks ps, None)"
| "Update_node (leafNode ord ks vs nx) k v = (leafNode ord ks vs nx, None)"

fun Delete_node :: "node \<Rightarrow> Key \<Rightarrow> node \<times> error option" where
  "Delete_node (internalNode ord ks ps) k = (internalNode ord ks ps, None)"
| "Delete_node (leafNode ord ks vs nx) k = (leafNode ord ks vs nx, None)"

section \<open>The tree\<close>

text \<open>
  \<^verbatim>\<open>NewBPlusTree\<close> panics when \<^verbatim>\<open>order <= 0\<close> and otherwise
  returns a tree whose root is a new leaf node.
\<close>

definition NewBPlusTree :: "int \<Rightarrow> panic + BPlusTree" where
  "NewBPlusTree ord =
     (if ord \<le> 0 then Inl (Panic ''tree order must be >= 1'')
      else Inr \<lparr>order = ord, root = newLeafNode ord\<rparr>)"

definition Order :: "BPlusTree \<Rightarrow> int" where
  "Order t = order t"

definition GetKeys :: "BPlusTree \<Rightarrow> Key list \<times> error option" where
  "GetKeys t = GetKeys_node (root t)"

definition GetValues :: "BPlusTree \<Rightarrow> Value list \<times> error option" where
  "GetValues t = GetValues_node (root t)"

definition Search :: "BPlusTree \<Rightarrow> Key \<Rightarrow> Value \<times> error option" where
  "Search t k = Search_node (root t) k"

definition SearchRange :: "BPlusTree \<Rightarrow> Key \<Rightarrow> Key \<Rightarrow> Value list \<times> error option" where
  "SearchRange t k1 k2 = SearchRange_node (root t) k1 k2"

text \<open>
  The mutating methods delegate to the root. The tree after the call has the root node
  as the node method left it; \<^verbatim>\<open>t.root\<close> and \<^verbatim>\<open>t.order\<close> are
  not assigned.
\<close>

definition Insert :: "BPlusTree \<Rightarrow> Key \<Rightarrow> Value \<Rightarrow> BPlusTree \<times> error option" where
  "Insert t k v = (case Insert_node (root t) k v of (n, err) \<Rightarrow> (t\<lparr>root := n\<rparr>, err))"

definition Update :: "BPlusTree \<Rightarrow> Key \<Rightarrow> Value \<Rightarrow> BPlusTree \<times> error option" where
  "Update t k v = (case Update_node (root t) k v of (n, err) \<Rightarrow> (t\<lparr>root := n\<rparr>, err))"

definition Delete :: "BPlusTree \<Rightarrow> Key \<Rightarrow> BPlusTree \<times> error option" where
  "Delete t k = (case Delete_node (root t) k of (n, err) \<Rightarrow> (t\<lparr>root := n\<rparr>, err))"

section \<open>Sequences of calls and the order of keys\<close>

text \<open>
  A caller's mutating calls on a tree, and the tree after a sequence of them. The
  returned errors are dropped here; the theorems on single calls state them.
\<close>

datatype call = CallInsert Key Value | CallUpdate Key Value | CallDelete Key

fun do_call :: "BPlusTree \<Rightarrow> call \<Rightarrow> BPlusTree \<times> error option" where
  "do_call t (CallInsert k v) = Insert t k v"
| "do_call t (CallUpdate k v) = Update t k v"
| "do_call t (CallDelete k) = Delete t k"

fun do_calls :: "BPlusTree \<Rightarrow> call list \<Rightarrow> BPlusTree" where
  "do_calls t [] = t"
| "do_calls t (c # cs) = do_calls (fst (do_call t c)) cs"

text \<open>
  Keys are ordered as byte strings, lexicographically, bytes compared unsigned; a nil key
  has no bytes. The source compares no keys: this order only states what
  ``non-decreasing'' means for a result of \<^verbatim>\<open>GetKeys\<close>.
\<close>

fun bytes_le :: "byte list \<Rightarrow> byte list \<Rightarrow> bool" where
  "bytes_le [] ys = True"
| "bytes_le (x # xs) [] = False"
| "bytes_le (x # xs) (y # ys) = (x < y \<or> (x = y \<and> bytes_le xs ys))"

definition key_bytes :: "Key \<Rightarrow> byte list" where
  "key_bytes k = (case k of None \<Rightarrow> [] | Some bs \<Rightarrow> bs)"

definition key_le :: "Key \<Rightarrow> Key \<Rightarrow> bool" where
  "key_le a b = bytes_le (key_bytes a) (key_bytes b)"

text \<open>
  Two trees used as concrete inputs. The first has a leaf root of order 2 holding the
  entry with key \<open>[1]\<close> and value \<open>[10]\<close> in its first slot. The second has a
  leaf root of order 5 holding the keys \<open>[1]\<close>, \<open>[3]\<close>, \<open>[5]\<close>,
  \<open>[7]\<close>, \<open>[9]\<close> with the values \<open>[11]\<close>, \<open>[13]\<close>, \<open>[15]\<close>,
  \<open>[17]\<close>, \<open>[19]\<close>.
\<close>

definition tree_one_entry :: BPlusTree where
  "tree_one_entry =
     \<lparr>order = 2, root = leafNode 2 [Some [1], None] [Some [10], None] None\<rparr>"

definition tree_odd_keys :: BPlusTree where
  "tree_odd_keys =
     \<lparr>order = 5,
      root = leafNode 5 [Some [1], Some [3], Some [5], Some [7], Some [9]]
               [Some [11], Some [13], Some [15], Some [17], Some [19]] None\<rparr>"

section \<open>Basic facts\<close>

lemma leaf_GetKeys_loop_nils: "leaf_GetKeys_loop (replicate n None) keys = keys"
  by (cases n) simp_all

lemma leaf_GetValues_loop_nils: "leaf_GetValues_loop (replicate n None) vals = vals"
  by (cases n) simp_all

lemma Insert_node_same: "Insert_node n k v = (n, None)"
  by (cases n) simp_all

lemma Update_node_same: "Update_node n k v = (n, None)"
  by (cases n) simp_all

lemma Delete_node_same: "Delete_node n k = (n, None)"
  by (cases n) simp_all

lemma Search_node_nil: "Search_node n k = (None, None)"
  by (cases n) simp_all

lemma SearchRange_node_nil: "SearchRange_node n k1 k2 = ([], None)"
  by (cases n) simp_all

lemma Insert_same: "Insert t k v = (t, None)"
  by (simp add: Insert_def Insert_node_same)

lemma Update_same: "Update t k v = (t, None)"
  by (simp add: Update_def Update_node_same)

lemma Delete_same: "Delete t k = (t, None)"
  by (simp add: Delete_def Delete_node_same)

lemma do_call_same: "do_call t c = (t, None)"
  by (cases c) (simp_all add: Insert_same Update_same Delete_same)

lemma do_calls_same: "do_calls t cs = t"
  by (induction cs arbitrary: t) (simp_all add: do_call_same)

lemma NewBPlusTree_ok:
  "0 < ord \<Longrightarrow> NewBPlusTree ord = Inr \<lparr>order = ord, root = newLeafNode ord\<rparr>"
  by (simp add: NewBPlusTree_def)

lemma GetKeys_new: "GetKeys \<lparr>order = ord, root = newLeafNode m\<rparr> = ([], None)"
  by (simp add: GetKeys_def newLeafNode_def leaf_GetKeys_loop_nils)

lemma GetValues_new: "GetValues \<lparr>order = ord, root = newLeafNode m\<rparr> = ([], None)"
  by (simp add: GetValues_def newLeafNode_def leaf_GetValues_loop_nils)

section \<open>Construction\<close>

text \<open>
  C7: construction with an order below 1 panics and returns no tree; for every order
  of at least 1 it returns a tree, \<^verbatim>\<open>Order()\<close> of that tree is the order
  given, and it stays so after any sequence of Insert, Update and Delete calls.
\<close>

theorem NewBPlusTree_order:
  "(ord < 1 \<longrightarrow> NewBPlusTree ord = Inl (Panic ''tree order must be >= 1'')) \<and>
   (1 \<le> ord \<longrightarrow>
      (\<exists>t. NewBPlusTree ord = Inr t \<and> Order t = ord \<and>
           (\<forall>cs. Order (do_calls t cs) = ord)))"
  by (simp add: NewBPlusTree_def Order_def do_calls_same)

theorem NewBPlusTree_order_witness:
  "(0::int) < 1 \<and> NewBPlusTree 0 = Inl (Panic ''tree order must be >= 1'') \<and>
   (1::int) \<le> 3 \<and>
   (\<exists>t. NewBPlusTree 3 = Inr t \<and> Order t = 3 \<and>
        Order (do_calls t [CallInsert (Some [1]) (Some [10]), CallDelete (Some [1])]) = 3)"
proof -
  have lo: "(0::int) < 1" and hi: "(1::int) \<le> 3"
    by simp_all
  from NewBPlusTree_order [of 0] lo
  have bad: "NewBPlusTree 0 = Inl (Panic ''tree order must be >= 1'')"
    by blast
  from NewBPlusTree_order [of 3] hi
  obtain t where "NewBPlusTree 3 = Inr t" and "Order t = 3"
    and "\<forall>cs. Order (do_calls t cs) = 3"
    by blast
  then have "\<exists>t. NewBPlusTree 3 = Inr t \<and> Order t = 3 \<and>
        Order (do_calls t [CallInsert (Some [1]) (Some [10]), CallDelete (Some [1])]) = 3"
    by blast
  with lo hi bad show ?thesis
    by blast
qed

text \<open>
  C8: for every order of at least 1, \<^verbatim>\<open>NewBPlusTree(order)\<close> returns a tree
  whose root is a leaf node, and \<^verbatim>\<open>GetKeys()\<close> and
  \<^verbatim>\<open>GetValues()\<close> on it both return the empty sequence and a nil error.
\<close>

theorem NewBPlusTree_empty_leaf:
  assumes "1 \<le> ord"
  shows "\<exists>t. NewBPlusTree ord = Inr t \<and>
             (\<exists>ks vs nx. root t = leafNode ord ks vs nx) \<and>
             GetKeys t = ([], None) \<and> GetValues t = ([], None)"
proof -
  from assms have "NewBPlusTree ord = Inr \<lparr>order = ord, root = newLeafNode ord\<rparr>"
    by (simp add: NewBPlusTree_ok)
  moreover have "\<exists>ks vs nx. root \<lparr>order = ord, root = newLeafNode ord\<rparr> = leafNode ord ks vs nx"
    by (simp add: newLeafNode_def)
  ultimately show ?thesis
    using GetKeys_new [of ord ord] GetValues_new [of ord ord] by blast
qed

theorem NewBPlusTree_empty_leaf_witness:
  "(1::int) \<le> 1 \<and>
   (\<exists>t. NewBPlusTree 1 = Inr t \<and>
        (\<exists>ks vs nx. root t = leafNode 1 ks vs nx) \<and>
        GetKeys t = ([], None) \<and> GetValues t = ([], None))"
proof -
  have h: "(1::int) \<le> 1"
    by simp
  from NewBPlusTree_empty_leaf [OF h] h show ?thesis
    by blast
qed

section \<open>Sortedness\<close>

text \<open>
  C6: for every tree reached from a freshly constructed tree by a sequence of Insert,
  Update and Delete calls, \<^verbatim>\<open>GetKeys()\<close> returns, with a nil error, a
  sequence of keys that is non-decreasing in the order of keys.
\<close>

theorem GetKeys_sorted:
  assumes "NewBPlusTree ord = Inr t"
  shows "\<exists>ks. GetKeys (do_calls t cs) = (ks, None) \<and> sorted_wrt key_le ks"
proof -
  from assms have "t = \<lparr>order = ord, root = newLeafNode ord\<rparr>"
    by (simp add: NewBPlusTree_def split: if_splits)
  then have "GetKeys (do_calls t cs) = ([], None)"
    by (simp add: do_calls_same GetKeys_new)
  then show ?thesis
    by simp
qed

theorem GetKeys_sorted_witness:
  "NewBPlusTree 2 = Inr \<lparr>order = 2, root = newLeafNode 2\<rparr> \<and>
   (\<exists>ks. GetKeys (do_calls \<lparr>order = 2, root = newLeafNode 2\<rparr>
            [CallInsert (Some [2]) (Some [20]), CallInsert (Some [1]) (Some [10]),
             CallUpdate (Some [2]) (Some [30]), CallDelete (Some [1])]) = (ks, None) \<and>
         sorted_wrt key_le ks)"
proof -
  have h: "NewBPlusTree 2 = Inr \<lparr>order = 2, root = newLeafNode 2\<rparr>"
    by (simp add: NewBPlusTree_def)
  from GetKeys_sorted [OF h] h show ?thesis
    by blast
qed

section \<open>What the mutating and searching methods do\<close>

text \<open>
  C9: for every tree and all arguments, \<^verbatim>\<open>Insert(k, v)\<close>,
  \<^verbatim>\<open>Update(k, v)\<close> and \<^verbatim>\<open>Delete(k)\<close> return a nil error and
  leave the tree as it was: the tree after the call is the tree before it, so the root is
  the same node, and \<^verbatim>\<open>GetKeys\<close>, \<^verbatim>\<open>GetValues\<close>,
  \<^verbatim>\<open>Search\<close>, \<^verbatim>\<open>SearchRange\<close> and \<^verbatim>\<open>Order\<close>
  return after the call what they returned before it.
\<close>

theorem mutators_change_nothing:
  "(Insert t k v = (t, None) \<and> Update t k v = (t, None) \<and> Delete t k = (t, None)) \<and>
   (\<forall>c. snd (do_call t c) = None \<and>
        root (fst (do_call t c)) = root t \<and>
        Order (fst (do_call t c)) = Order t \<and>
        GetKeys (fst (do_call t c)) = GetKeys t \<and>
        GetValues (fst (do_call t c)) = GetValues t \<and>
        (\<forall>q. Search (fst (do_call t c)) q = Search t q) \<and>
        (\<forall>q1 q2. SearchRange (fst (do_call t c)) q1 q2 = SearchRange t q1 q2))"
  by (simp add: Insert_same Update_same Delete_same do_call_same)

text \<open>
  C10: for every tree and every key, \<^verbatim>\<open>Search\<close> returns a nil value and a
  nil error; the result is the same for every tree and key, so nothing in it tells a
  key that is absent from any other outcome.
\<close>

theorem Search_returns_nil:
  "Search t k = (None, None) \<and> Search t k = Search t' k'"
  by (simp add: Search_def Search_node_nil)

section \<open>The source at inputs where entries are expected\<close>

text \<open>
  C1: the round trip of Insert and Search, evaluated on the source. A tree of order 3
  is constructed, the key \<open>[1]\<close> is inserted with the value \<open>[10]\<close>, and the
  key is searched: the source returns a nil value, not \<open>[10]\<close>.
\<close>

theorem insert_then_search_is_nil:
  "NewBPlusTree 3 = Inr \<lparr>order = 3, root = newLeafNode 3\<rparr> \<and>
   Search (fst (Insert \<lparr>order = 3, root = newLeafNode 3\<rparr> (Some [1]) (Some [10])))
     (Some [1]) = (None, None) \<and>
   fst (Search (fst (Insert \<lparr>order = 3, root = newLeafNode 3\<rparr> (Some [1]) (Some [10])))
     (Some [1])) \<noteq> Some [10]"
  by (simp add: NewBPlusTree_def Insert_same Search_def Search_node_nil)

text \<open>
  C2: the range search, evaluated on the source. On the tree whose leaf root holds the
  keys \<open>[1]\<close>, \<open>[3]\<close>, \<open>[5]\<close>, \<open>[7]\<close>, \<open>[9]\<close>,
  \<^verbatim>\<open>SearchRange\<close> from \<open>[2]\<close> to \<open>[7]\<close> returns no value, not the
  values \<open>[13]\<close>, \<open>[15]\<close>, \<open>[17]\<close> of the keys \<open>[3]\<close>, \<open>[5]\<close>,
  \<open>[7]\<close>; and so it does on the tree built by inserting the five entries.
\<close>

theorem range_search_is_empty:
  "GetKeys tree_odd_keys = ([Some [1], Some [3], Some [5], Some [7], Some [9]], None) \<and>
   GetValues tree_odd_keys = ([Some [11], Some [13], Some [15], Some [17], Some [19]], None) \<and>
   SearchRange tree_odd_keys (Some [2]) (Some [7]) = ([], None) \<and>
   NewBPlusTree 5 = Inr \<lparr>order = 5, root = newLeafNode 5\<rparr> \<and>
   SearchRange (do_calls \<lparr>order = 5, root = newLeafNode 5\<rparr>
       [CallInsert (Some [1]) (Some [11]), CallInsert (Some [3]) (Some [13]),
        CallInsert (Some [5]) (Some [15]), CallInsert (Some [7]) (Some [17]),
        CallInsert (Some [9]) (Some [19])])
     (Some [2]) (Some [7]) = ([], None)"
  by (simp add: tree_odd_keys_def GetKeys_def GetValues_def SearchRange_def
      NewBPlusTree_def SearchRange_node_nil)

text \<open>
  C3: duplicate keys, evaluated on the source. A tree of order 4 is constructed and the
  key \<open>[1]\<close> is inserted twice, with the values \<open>[10]\<close> and \<open>[20]\<close>:
  \<^verbatim>\<open>SearchRange\<close> from \<open>[1]\<close> to \<open>[1]\<close> returns no value, not the
  two values, and \<^verbatim>\<open>Search\<close> of \<open>[1]\<close> returns a nil value, not
  \<open>[10]\<close>.
\<close>

theorem duplicate_inserts_are_lost:
  "NewBPlusTree 4 = Inr \<lparr>order = 4, root = newLeafNode 4\<rparr> \<and>
   SearchRange (do_calls \<lparr>order = 4, root = newLeafNode 4\<rparr>
       [CallInsert (Some [1]) (Some [10]), CallInsert (Some [1]) (Some [20])])
     (Some [1]) (Some [1]) = ([], None) \<and>
   Search (do_calls \<lparr>order = 4, root = newLeafNode 4\<rparr>
       [CallInsert (Some [1]) (Some [10]), CallInsert (Some [1]) (Some [20])])
     (Some [1]) = (None, None)"
  by (simp add: NewBPlusTree_def SearchRange_def SearchRange_node_nil
      Search_def Search_node_nil)

text \<open>
  C4: Delete, evaluated on the source. On the tree whose leaf root holds the one entry
  with key \<open>[1]\<close>, \<^verbatim>\<open>Delete\<close> of \<open>[1]\<close> returns a nil error and
  \<^verbatim>\<open>GetKeys\<close> still returns the key \<open>[1]\<close> afterwards.
\<close>

theorem delete_keeps_the_key:
  "GetKeys tree_one_entry = ([Some [1]], None) \<and>
   snd (Delete tree_one_entry (Some [1])) = None \<and>
   GetKeys (fst (Delete tree_one_entry (Some [1]))) = ([Some [1]], None)"
  by (simp add: Delete_same tree_one_entry_def GetKeys_def)

text \<open>
  C5: Update, evaluated on the source. On the tree whose leaf root holds the one entry
  with key \<open>[1]\<close> and value \<open>[10]\<close>, \<^verbatim>\<open>Update\<close> of \<open>[1]\<close> to
  \<open>[20]\<close> returns a nil error and \<^verbatim>\<open>GetValues\<close> still returns the
  value \<open>[10]\<close> afterwards, not \<open>[20]\<close>.
\<close>

theorem update_keeps_the_value:
  "GetKeys tree_one_entry = ([Some [1]], None) \<and>
   GetValues tree_one_entry = ([Some [10]], None) \<and>
   snd (Update tree_one_entry (Some [1]) (Some [20])) = None \<and>
   GetValues (fst (Update tree_one_entry (Some [1]) (Some [20]))) = ([Some [10]], None)"
  by (simp add: Update_same tree_one_entry_def GetKeys_def GetValues_def)

end
